theory Spec2Isabelle
  imports Main
begin

section \<open>The video extraction pipeline (\<open>video_extractor.py\<close>)\<close>

text \<open>
  A shallow embedding of class \<open>VideoExtractor\<close>. The instance's mutable state, the
  file system and the log of calls to the outside world are one record (\<open>world\<close>) that
  every method takes and returns. What the program cannot decide itself (the Gemini
  service, Python's \<open>str.format\<close>, \<open>pathlib\<close>, the clock, the operating system's
  refusals) is a record of functions (\<open>env\<close>); every theorem holds for all of them.
  Exceptions are values of type \<open>error\<close>; a call that never returns is \<open>None\<close>.
\<close>

subsection \<open>Python values and dictionaries\<close>

text \<open>
  The values a job record holds after \<open>yaml.safe_load\<close>: a string, or \<open>None\<close>
  (a key written with no value). Numbers, lists and mappings as values of a job's keys
  are outside the model. A job is a Python \<open>dict\<close>.
\<close>

datatype pyval = PNone | PStr string

type_synonym pydict = "string \<rightharpoonup> pyval"

text \<open>Truthiness (\<open>if x\<close>, \<open>not x\<close>, \<open>x or y\<close>): \<open>None\<close> and the empty string are false.\<close>

fun truthy :: "pyval \<Rightarrow> bool" where
  "truthy PNone = False"
| "truthy (PStr s) = (s \<noteq> [])"

text \<open>\<open>a or b\<close>\<close>

definition py_or :: "pyval \<Rightarrow> pyval \<Rightarrow> pyval" where
  "py_or a b = (if truthy a then a else b)"

text \<open>\<open>str(x)\<close>, as an f-string formats a value\<close>

fun py_str :: "pyval \<Rightarrow> string" where
  "py_str PNone = ''None''"
| "py_str (PStr s) = s"

text \<open>\<open>d.get(k)\<close> and \<open>d.get(k, default)\<close>\<close>

definition dict_get :: "pydict \<Rightarrow> string \<Rightarrow> pyval" where
  "dict_get d k = (case d k of None \<Rightarrow> PNone | Some v \<Rightarrow> v)"

definition dict_get_default :: "pydict \<Rightarrow> string \<Rightarrow> pyval \<Rightarrow> pyval" where
  "dict_get_default d k dflt = (case d k of None \<Rightarrow> dflt | Some v \<Rightarrow> v)"

definition nl :: string where
  "nl = [CHR 0x0A]"

subsection \<open>Exceptions\<close>

datatype error =
    FileNotFoundError string
  | ValueError string
  | KeyError string
  | TypeError
  | AttributeError
  | Exception string
  | OSError string
  | ServiceError string

subsection \<open>The external service and the state of the program\<close>

text \<open>
  Modelled from the spec: the processing status of an uploaded file, which the source
  reads as \<open>types.FileState\<close> of the \<open>google.genai\<close> library and compares with
  \<open>PROCESSING\<close> and \<open>FAILED\<close> only. Section 6 of the specification gives the service a
  tri-state status Ready, Processing, Failed; \<open>ACTIVE\<close> is the library's name for Ready.
\<close>

datatype FileState = PROCESSING | ACTIVE | FAILED

text \<open>The file object the service returns from \<open>files.upload\<close> and \<open>files.get\<close>.\<close>

record file_obj =
  f_name :: string
  f_uri :: string
  f_mime_type :: string
  f_state :: FileState

text \<open>
  What \<open>process_video\<close> hands to \<open>extract_content\<close>: an instance of the local class
  \<open>YouTubeVideo\<close> (uri, mime type, name; \<open>is_youtube\<close> is the constructor itself), or
  the service's file object.
\<close>

datatype video_obj = YouTubeVideo string string string | Uploaded file_obj

fun uri :: "video_obj \<Rightarrow> string" where
  "uri (YouTubeVideo u m n) = u"
| "uri (Uploaded f) = f_uri f"

fun mime_type :: "video_obj \<Rightarrow> string" where
  "mime_type (YouTubeVideo u m n) = m"
| "mime_type (Uploaded f) = f_mime_type f"

text \<open>
  The calls that leave the process, in the order they are made. Both sleeps are
  \<open>time.sleep\<close>; they are told apart by call site: \<open>PollSleep\<close> is line 130 (the polling
  loop), \<open>RateLimitSleep\<close> is line 330 (between two jobs).
\<close>

datatype event =
    FilesUpload string string
  | PollSleep nat
  | FilesGet string
  | GenerateContent string string string
  | RateLimitSleep nat

record world =
  uploaded_files :: "string \<rightharpoonup> video_obj"
  fs :: "string \<rightharpoonup> string"
  dirs :: "string set"
  calls :: "event list"

definition log :: "world \<Rightarrow> event \<Rightarrow> world" where
  "log w e = w\<lparr>calls := calls w @ [e]\<rparr>"

text \<open>
  The environment. The service's answers may depend on everything that was called
  before (the first argument of the three \<open>svc\<close> functions is the log so far), so a
  service that answers the same request differently each time is covered.
  \<^item> \<open>svc_upload h path display_name\<close>: opening the file and \<open>client.files.upload\<close>;
  \<^item> \<open>svc_get h name\<close>: \<open>client.files.get\<close>;
  \<^item> \<open>svc_generate h uri mime prompt\<close>: \<open>client.models.generate_content\<close>, giving
    \<open>response.text\<close>;
  \<^item> \<open>str_format template title section course_context output_format\<close>: \<open>str.format\<close>
    with these four keyword arguments;
  \<^item> \<open>path_stem\<close>: \<open>Path(p).stem\<close>; \<open>path_parents p\<close>: the directories that
    \<open>Path(p).parent.mkdir(parents=True, exist_ok=True)\<close> makes sure exist;
  \<^item> \<open>mkdir_error\<close>, \<open>open_error\<close>: the operating system refusing that \<open>mkdir\<close>, or
    refusing to open the file for writing and write it;
  \<^item> \<open>today\<close>: \<open>datetime.now().strftime('%Y-%m-%d')\<close>.
\<close>

record env =
  svc_upload :: "event list \<Rightarrow> string \<Rightarrow> string \<Rightarrow> error + file_obj"
  svc_get :: "event list \<Rightarrow> string \<Rightarrow> error + file_obj"
  svc_generate :: "event list \<Rightarrow> string \<Rightarrow> string \<Rightarrow> string \<Rightarrow> error + pyval"
  str_format :: "string \<Rightarrow> pyval \<Rightarrow> pyval \<Rightarrow> pyval \<Rightarrow> pyval \<Rightarrow> error + string"
  path_stem :: "string \<Rightarrow> string"
  path_parents :: "string \<Rightarrow> string list"
  mkdir_error :: "string \<Rightarrow> error option"
  open_error :: "string \<Rightarrow> error option"
  today :: string

text \<open>
  \<open>self.config\<close>, the keys the methods below read. \<open>videos\<close> is the job list (an
  absent key is the empty list); \<open>rate_limit_delay\<close> is \<open>None\<close> when the key is absent
  (the code then sleeps 2), a number of seconds otherwise; an absent \<open>prompt_template\<close>,
  \<open>course_context\<close> or \<open>output_format\<close> is \<open>None\<close> here and the code's default \<open>''\<close>
  is applied where the key is read.
\<close>

record config =
  videos :: "pydict list"
  rate_limit_delay :: "nat option"
  prompt_template :: "pyval option"
  course_context :: "pyval option"
  output_format :: "pyval option"

subsection \<open>\<open>_is_youtube_url\<close>: regular expressions\<close>

text \<open>
  The fragment of Python's \<open>re\<close> the three patterns use: a literal, an optional group,
  concatenation, and one or more characters of a class. \<open>rmatch r s\<close> lists what is left
  of \<open>s\<close> after each way \<open>r\<close> matches a prefix of it, so backtracking is covered;
  \<open>re.match\<close> succeeds when there is one (it anchors at the start only).
\<close>

datatype regex =
    Lit string
  | Opt regex
  | Cat regex regex
  | Plus "char \<Rightarrow> bool"

fun plus_rest :: "(char \<Rightarrow> bool) \<Rightarrow> string \<Rightarrow> string list" where
  "plus_rest P [] = []"
| "plus_rest P (c # cs) = (if P c then plus_rest P cs @ [cs] else [])"

fun rmatch :: "regex \<Rightarrow> string \<Rightarrow> string list" where
  "rmatch (Lit l) s = (if take (length l) s = l then [drop (length l) s] else [])"
| "rmatch (Opt r) s = rmatch r s @ [s]"
| "rmatch (Cat r1 r2) s = concat (map (rmatch r2) (rmatch r1 s))"
| "rmatch (Plus P) s = plus_rest P s"

definition re_match :: "regex \<Rightarrow> string \<Rightarrow> bool" where
  "re_match r s = (rmatch r s \<noteq> [])"

text \<open>
  The class \<open>[\w-]\<close> on ASCII: letters, digits, underscore, hyphen. (Python's \<open>\w\<close>
  also takes non-ASCII letters and digits; a \<open>string\<close> here is a list of bytes.)
\<close>

definition word_or_hyphen :: "char \<Rightarrow> bool" where
  "word_or_hyphen c =
     (let n = of_char c :: nat in
        (48 \<le> n \<and> n \<le> 57) \<or> (65 \<le> n \<and> n \<le> 90) \<or> (97 \<le> n \<and> n \<le> 122)
        \<or> c = CHR ''_'' \<or> c = CHR ''-'')"

text \<open>\<open>(?:https?://)?(?:www\.)?\<close>\<close>

definition url_head :: regex where
  "url_head =
     Cat (Opt (Cat (Lit ''http'') (Cat (Opt (Lit ''s'')) (Lit ''://'')))) (Opt (Lit ''www.''))"

definition youtube_patterns :: "regex list" where
  "youtube_patterns =
     [Cat url_head (Cat (Lit ''youtube.com/watch?v='') (Plus word_or_hyphen)),
      Cat url_head (Cat (Lit ''youtu.be/'') (Plus word_or_hyphen)),
      Cat url_head (Cat (Lit ''youtube.com/embed/'') (Plus word_or_hyphen))]"

definition is_youtube_url :: "string \<Rightarrow> bool" where
  "is_youtube_url url = list_ex (\<lambda>pattern. re_match pattern url) youtube_patterns"

subsection \<open>Preparing a source\<close>

text \<open>\<open>create_youtube_video_object\<close> (lines 66-94). It cannot raise.\<close>

definition create_youtube_video_object :: "world \<Rightarrow> string \<Rightarrow> pyval \<Rightarrow> video_obj \<times> world" where
  "create_youtube_video_object w youtube_url display_name =
     (case uploaded_files w youtube_url of
        Some cached \<Rightarrow> (cached, w)
      | None \<Rightarrow>
          (let video_obj = YouTubeVideo youtube_url ''video/mp4''
                             (py_str (py_or display_name (PStr youtube_url)))
           in (video_obj, w\<lparr>uploaded_files := (uploaded_files w)(youtube_url \<mapsto> video_obj)\<rparr>)))"

text \<open>
  The polling loop of \<open>upload_video\<close> (lines 128-131): while the file is
  \<open>PROCESSING\<close>, sleep 2 and ask again. There is no bound on the number of rounds, so
  the loop is a partial function: \<open>None\<close> is the loop that never ends.
\<close>

partial_function (option) wait_processing ::
  "env \<Rightarrow> file_obj \<Rightarrow> world \<Rightarrow> ((error + file_obj) \<times> world) option" where
  "wait_processing env video_file_obj w =
     (if f_state video_file_obj = PROCESSING then
        (let w1 = log w (PollSleep 2);
             w2 = log w1 (FilesGet (f_name video_file_obj))
         in case svc_get env (calls w1) (f_name video_file_obj) of
              Inl e \<Rightarrow> Some (Inl e, w2)
            | Inr video_file_obj' \<Rightarrow> wait_processing env video_file_obj' w2)
      else Some (Inr video_file_obj, w))"

text \<open>Line 113: \<open>display_name or video_file.stem\<close>\<close>

definition upload_display_name :: "env \<Rightarrow> string \<Rightarrow> pyval \<Rightarrow> string" where
  "upload_display_name env video_path display_name =
     (if truthy display_name then py_str display_name else path_stem env video_path)"

text \<open>
  \<open>upload_video\<close> (lines 96-142). A path exists when the file system has a file there.
  The existence check comes before the cache lookup, as in the source.
\<close>

definition upload_video ::
  "env \<Rightarrow> world \<Rightarrow> string \<Rightarrow> pyval \<Rightarrow> ((error + video_obj) \<times> world) option" where
  "upload_video env w video_path display_name =
     (if fs w video_path = None then Some (Inl (FileNotFoundError video_path), w)
      else case uploaded_files w video_path of
        Some cached \<Rightarrow> Some (Inr cached, w)
      | None \<Rightarrow>
          (let dn = upload_display_name env video_path display_name;
               w1 = log w (FilesUpload video_path dn)
           in case svc_upload env (calls w) video_path dn of
                Inl e \<Rightarrow> Some (Inl e, w1)
              | Inr f0 \<Rightarrow>
                  (case wait_processing env f0 w1 of
                     None \<Rightarrow> None
                   | Some (Inl e, w2) \<Rightarrow> Some (Inl e, w2)
                   | Some (Inr f, w2) \<Rightarrow>
                       if f_state f = FAILED
                       then Some (Inl (Exception ''Video processing failed''), w2)
                       else Some (Inr (Uploaded f),
                              w2\<lparr>uploaded_files := (uploaded_files w2)(video_path \<mapsto> Uploaded f)\<rparr>))))"

subsection \<open>Extraction\<close>

text \<open>\<open>_build_extraction_prompt\<close> (lines 196-208)\<close>

definition cfg_get :: "pyval option \<Rightarrow> pyval" where
  "cfg_get v = (case v of None \<Rightarrow> PStr [] | Some x \<Rightarrow> x)"

definition build_extraction_prompt :: "env \<Rightarrow> config \<Rightarrow> pydict \<Rightarrow> error + string" where
  "build_extraction_prompt env cfg video_metadata =
     (case cfg_get (prompt_template cfg) of
        PNone \<Rightarrow> Inl AttributeError
      | PStr template \<Rightarrow>
          str_format env template
            (dict_get_default video_metadata ''title'' (PStr ''Unknown''))
            (dict_get_default video_metadata ''section'' (PStr ''Unknown''))
            (cfg_get (course_context cfg))
            (cfg_get (output_format cfg)))"

text \<open>\<open>extract_content\<close> (lines 144-194); its \<open>except\<close> clause prints and re-raises.\<close>

definition extract_content ::
  "env \<Rightarrow> config \<Rightarrow> world \<Rightarrow> video_obj \<Rightarrow> pydict \<Rightarrow> (error + pyval) \<times> world" where
  "extract_content env cfg w video_file_obj video_metadata =
     (case build_extraction_prompt env cfg video_metadata of
        Inl e \<Rightarrow> (Inl e, w)
      | Inr prompt \<Rightarrow>
          (let w1 = log w (GenerateContent (uri video_file_obj) (mime_type video_file_obj) prompt)
           in case svc_generate env (calls w) (uri video_file_obj) (mime_type video_file_obj) prompt of
                Inl e \<Rightarrow> (Inl e, w1)
              | Inr text \<Rightarrow>
                  if \<not> truthy text then (Inl (Exception ''Empty response from Gemini''), w1)
                  else (Inr text, w1)))"

subsection \<open>Writing the document\<close>

text \<open>\<open>_generate_metadata_header\<close> (lines 224-238)\<close>

definition generate_metadata_header :: "env \<Rightarrow> pydict \<Rightarrow> string" where
  "generate_metadata_header env video_metadata =
     (let source_info = py_or (dict_get video_metadata ''youtube_url'')
                          (dict_get_default video_metadata ''filename'' (PStr ''Unknown''));
          source_label = (if truthy (dict_get video_metadata ''youtube_url'')
                          then ''YouTube URL'' else ''Video File'')
      in ''# '' @ py_str (dict_get_default video_metadata ''title'' (PStr ''Untitled'')) @ nl
         @ nl
         @ ''**Section:** ''
             @ py_str (dict_get_default video_metadata ''section'' (PStr ''Unknown Section'')) @ nl
         @ ''**Extracted:** '' @ today env @ nl
         @ ''**'' @ source_label @ '':** '' @ py_str source_info @ nl
         @ nl
         @ ''---'' @ nl)"

text \<open>
  \<open>save_markdown\<close> (lines 210-222): make the parent directories, then open the file
  with mode \<open>'w'\<close> and write header, two newlines, content. \<open>Path(None)\<close> is a
  \<open>TypeError\<close>.
\<close>

definition save_markdown ::
  "env \<Rightarrow> world \<Rightarrow> pyval \<Rightarrow> pyval \<Rightarrow> pydict \<Rightarrow> (error + unit) \<times> world" where
  "save_markdown env w content output_path video_metadata =
     (case output_path of
        PNone \<Rightarrow> (Inl TypeError, w)
      | PStr output_file \<Rightarrow>
          (case mkdir_error env output_file of
             Some e \<Rightarrow> (Inl e, w)
           | None \<Rightarrow>
               (let w1 = w\<lparr>dirs := dirs w \<union> set (path_parents env output_file)\<rparr>;
                    header = generate_metadata_header env video_metadata;
                    full_content = header @ nl @ nl @ py_str content
                in case open_error env output_file of
                     Some e \<Rightarrow> (Inl e, w1)
                   | None \<Rightarrow> (Inr (), w1\<lparr>fs := (fs w1)(output_file \<mapsto> full_content)\<rparr>))))"

subsection \<open>One job\<close>

text \<open>
  The body of the \<open>try\<close> block of \<open>process_video\<close> (lines 263-279). It is entered
  only after the check of line 252, so with a \<open>youtube_url\<close> or a \<open>path\<close> that is a
  non-empty string.
\<close>

definition process_video_try ::
  "env \<Rightarrow> config \<Rightarrow> world \<Rightarrow> pydict \<Rightarrow> pyval \<Rightarrow> ((error + unit) \<times> world) option" where
  "process_video_try env cfg w video_config output_path =
     (let youtube_url = dict_get video_config ''youtube_url'';
          video_path = dict_get video_config ''path'';
          prepared =
            (if truthy youtube_url
             then (case create_youtube_video_object w (py_str youtube_url)
                          (dict_get video_config ''title'') of
                     (video_file_obj, w1) \<Rightarrow> Some (Inr video_file_obj, w1))
             else upload_video env w (py_str video_path) (dict_get video_config ''title''))
      in case prepared of
           None \<Rightarrow> None
         | Some (Inl e, w1) \<Rightarrow> Some (Inl e, w1)
         | Some (Inr video_file_obj, w1) \<Rightarrow>
             (case extract_content env cfg w1 video_file_obj video_config of
                (Inl e, w2) \<Rightarrow> Some (Inl e, w2)
              | (Inr content, w2) \<Rightarrow>
                  Some (save_markdown env w2 content output_path video_config)))"

text \<open>The message of line 253; \<open>CHR 0x27\<close> is the single quote.\<close>

definition missing_source_message :: string where
  "missing_source_message =
     ''Video config must specify either '' @ [CHR 0x27] @ ''youtube_url'' @ [CHR 0x27]
     @ '' or '' @ [CHR 0x27] @ ''path'' @ [CHR 0x27]"

text \<open>
  \<open>process_video\<close> (lines 240-286). \<open>video_config['output']\<close> and the check of the two
  source keys are outside the \<open>try\<close>: their exceptions leave the method. Inside it,
  every exception becomes the result \<open>False\<close>.
\<close>

definition process_video ::
  "env \<Rightarrow> config \<Rightarrow> world \<Rightarrow> pydict \<Rightarrow> ((error + bool) \<times> world) option" where
  "process_video env cfg w video_config =
     (let youtube_url = dict_get video_config ''youtube_url'';
          video_path = dict_get video_config ''path''
      in case video_config ''output'' of
           None \<Rightarrow> Some (Inl (KeyError ''output''), w)
         | Some output_path \<Rightarrow>
             if \<not> truthy youtube_url \<and> \<not> truthy video_path
             then Some (Inl (ValueError missing_source_message), w)
             else (case process_video_try env cfg w video_config output_path of
                     None \<Rightarrow> None
                   | Some (Inl e, w1) \<Rightarrow> Some (Inr False, w1)
                   | Some (Inr u, w1) \<Rightarrow> Some (Inr True, w1)))"

subsection \<open>The batch\<close>

text \<open>
  The summary \<open>process_batch\<close> returns. The dictionary of the early return (line 305) has
  no key \<open>errors\<close>: \<open>errors = None\<close>.
\<close>

record error_entry =
  video :: pyval
  source :: pyval

record summary =
  total :: nat
  success :: nat
  failed :: nat
  errors :: "error_entry list option"

text \<open>Lines 322-326: the entry of the failure list for a job.\<close>

definition failure_entry :: "pydict \<Rightarrow> error_entry" where
  "failure_entry video_config =
     (let video_source = py_or (dict_get video_config ''youtube_url'')
                           (dict_get video_config ''path'')
      in \<lparr>video = dict_get_default video_config ''title'' video_source,
          source = video_source\<rparr>)"

text \<open>
  Lines 318-326: count the job, and on failure append its entry. The loop starts from
  a dictionary that has the key \<open>errors\<close> (line 311), so the list is there.
\<close>

definition record_result :: "summary \<Rightarrow> pydict \<Rightarrow> bool \<Rightarrow> summary" where
  "record_result results video_config ok =
     (if ok then results\<lparr>success := success results + 1\<rparr>
      else results\<lparr>failed := failed results + 1,
                   errors := map_option (\<lambda>es. es @ [failure_entry video_config])
                               (errors results)\<rparr>)"

text \<open>\<open>self.config.get('rate_limit_delay', 2)\<close>\<close>

definition rate_limit_seconds :: "config \<Rightarrow> nat" where
  "rate_limit_seconds cfg = (case rate_limit_delay cfg of None \<Rightarrow> 2 | Some d \<Rightarrow> d)"

text \<open>Lines 329-330: sleep after job \<open>i\<close> of \<open>n\<close> unless it is the last one.\<close>

definition pace :: "config \<Rightarrow> nat \<Rightarrow> nat \<Rightarrow> world \<Rightarrow> world" where
  "pace cfg n i w = (if i < n then log w (RateLimitSleep (rate_limit_seconds cfg)) else w)"

text \<open>
  The \<open>for\<close> loop (lines 313-330): \<open>n\<close> is \<open>len(videos)\<close>, \<open>i\<close> the index that
  \<open>enumerate(videos, 1)\<close> gives the head of the list.
\<close>

fun batch_loop ::
  "env \<Rightarrow> config \<Rightarrow> nat \<Rightarrow> nat \<Rightarrow> pydict list \<Rightarrow> summary \<Rightarrow> world
     \<Rightarrow> ((error + summary) \<times> world) option" where
  "batch_loop env cfg n i [] results w = Some (Inr results, w)"
| "batch_loop env cfg n i (video_config # rest) results w =
     (case process_video env cfg w video_config of
        None \<Rightarrow> None
      | Some (Inl e, w1) \<Rightarrow> Some (Inl e, w1)
      | Some (Inr ok, w1) \<Rightarrow>
          batch_loop env cfg n (i + 1) rest (record_result results video_config ok)
            (pace cfg n i w1))"

text \<open>
  Lines 294-301: the job list, restricted when \<open>video_list\<close> is given and not empty.
  \<open>x in video_list\<close> compares \<open>x\<close> with the strings of the list.
\<close>

definition resolve_videos :: "config \<Rightarrow> string list option \<Rightarrow> pydict list" where
  "resolve_videos cfg video_list =
     (case video_list of
        None \<Rightarrow> videos cfg
      | Some vl \<Rightarrow>
          if vl = [] then videos cfg
          else filter (\<lambda>v. dict_get v ''path'' \<in> set (map PStr vl)
                          \<or> dict_get v ''youtube_url'' \<in> set (map PStr vl)
                          \<or> dict_get v ''id'' \<in> set (map PStr vl)) (videos cfg))"

text \<open>\<open>process_batch\<close> (lines 288-333)\<close>

definition process_batch ::
  "env \<Rightarrow> config \<Rightarrow> string list option \<Rightarrow> world \<Rightarrow> ((error + summary) \<times> world) option" where
  "process_batch env cfg video_list w =
     (let vs = resolve_videos cfg video_list
      in if vs = [] then Some (Inr \<lparr>total = 0, success = 0, failed = 0, errors = None\<rparr>, w)
         else batch_loop env cfg (length vs) 1 vs
                \<lparr>total = length vs, success = 0, failed = 0, errors = Some []\<rparr> w)"

section \<open>Vocabulary of the properties\<close>

subsection \<open>The log of calls\<close>

fun is_poll :: "event \<Rightarrow> bool" where
  "is_poll (PollSleep n) = True"
| "is_poll (FilesGet n) = True"
| "is_poll _ = False"

fun is_rate_limit_sleep :: "event \<Rightarrow> bool" where
  "is_rate_limit_sleep (RateLimitSleep d) = True"
| "is_rate_limit_sleep _ = False"

fun is_upload :: "event \<Rightarrow> bool" where
  "is_upload (FilesUpload p d) = True"
| "is_upload _ = False"

fun is_generate :: "event \<Rightarrow> bool" where
  "is_generate (GenerateContent u m p) = True"
| "is_generate _ = False"

text \<open>The calls one job can make: everything but the pause between jobs.\<close>

definition in_job :: "event \<Rightarrow> bool" where
  "in_job e = (\<not> is_rate_limit_sleep e)"

text \<open>\<open>extends P w w'\<close>: the log of \<open>w'\<close> is the log of \<open>w\<close> and then calls that satisfy \<open>P\<close>.\<close>

definition extends :: "(event \<Rightarrow> bool) \<Rightarrow> world \<Rightarrow> world \<Rightarrow> bool" where
  "extends P w w' = (\<exists>evs. calls w' = calls w @ evs \<and> list_all P evs)"

text \<open>What the polling loop may change: it adds sleeps and status requests to the log.\<close>

definition poll_frame :: "world \<Rightarrow> world \<Rightarrow> bool" where
  "poll_frame w w' =
     (uploaded_files w' = uploaded_files w \<and> fs w' = fs w \<and> dirs w' = dirs w
      \<and> extends is_poll w w')"


subsection \<open>The service during polling\<close>

text \<open>
  \<open>gs 0\<close> is the file object that \<open>files.upload\<close> returned and \<open>gs (i + 1)\<close> the answer
  to poll \<open>i\<close>. \<open>poll_log gs n\<close> is what \<open>n\<close> rounds of the loop add to the log;
  \<open>poll_answers env h gs n\<close> says that, the log being \<open>h\<close> when the loop starts, the
  first \<open>n\<close> rounds each find the file \<open>PROCESSING\<close> and get the next object of \<open>gs\<close>.
\<close>

fun poll_log :: "(nat \<Rightarrow> file_obj) \<Rightarrow> nat \<Rightarrow> event list" where
  "poll_log gs 0 = []"
| "poll_log gs (Suc n) = poll_log gs n @ [PollSleep 2, FilesGet (f_name (gs n))]"

definition poll_answers :: "env \<Rightarrow> event list \<Rightarrow> (nat \<Rightarrow> file_obj) \<Rightarrow> nat \<Rightarrow> bool" where
  "poll_answers env h gs n =
     (\<forall>i<n. f_state (gs i) = PROCESSING
            \<and> svc_get env (h @ poll_log gs i @ [PollSleep 2]) (f_name (gs i)) = Inr (gs (Suc i)))"

text \<open>A service that answers every status request, whenever asked, with \<open>PROCESSING\<close>.\<close>

definition always_processing :: "env \<Rightarrow> bool" where
  "always_processing env = (\<forall>h nm. \<exists>g. svc_get env h nm = Inr g \<and> f_state g = PROCESSING)"

subsection \<open>Jobs\<close>

text \<open>
  A job as the data model of the specification wants it: it names an output and at
  least one source.
\<close>

definition well_formed_job :: "pydict \<Rightarrow> bool" where
  "well_formed_job job =
     (job ''output'' \<noteq> None
      \<and> (truthy (dict_get job ''youtube_url'') \<or> truthy (dict_get job ''path'')))"

subsection \<open>The job filter, in the words of the specification\<close>


section \<open>Example inputs\<close>

text \<open>
  A service where everything works at once: uploads are ready immediately, generation
  answers \<open>BODY\<close>, the template is returned as the prompt, the file system accepts
  every write.
\<close>

definition demo_file :: "FileState \<Rightarrow> file_obj" where
  "demo_file st =
     \<lparr>f_name = ''files/a'', f_uri = ''gemini://files/a'', f_mime_type = ''video/mp4'',
      f_state = st\<rparr>"

definition demo_env :: env where
  "demo_env =
     \<lparr>svc_upload = (\<lambda>h p dn. Inr (demo_file ACTIVE)),
      svc_get = (\<lambda>h n. Inl (ServiceError ''not found'')),
      svc_generate = (\<lambda>h u m p. Inr (PStr ''BODY'')),
      str_format = (\<lambda>t a b c d. Inr t),
      path_stem = takeWhile (\<lambda>c. c \<noteq> CHR ''.''),
      path_parents = (\<lambda>p. []),
      mkdir_error = (\<lambda>p. None),
      open_error = (\<lambda>p. None),
      today = ''2025-01-01''\<rparr>"

text \<open>
  A service that reports \<open>PROCESSING\<close> on upload and on the first poll, and \<open>st\<close> from
  the second poll on (it counts the sleeps in the log).
\<close>

definition polling_env :: "FileState \<Rightarrow> env" where
  "polling_env st =
     demo_env\<lparr>svc_upload := (\<lambda>h p dn. Inr (demo_file PROCESSING)),
              svc_get := (\<lambda>h nm. Inr (demo_file (if count_list h (PollSleep 2) < 2
                                                 then PROCESSING else st)))\<rparr>"

definition demo_polls :: "FileState \<Rightarrow> nat \<Rightarrow> file_obj" where
  "demo_polls st i = demo_file (if i < 2 then PROCESSING else st)"

definition demo_config :: "pydict list \<Rightarrow> config" where
  "demo_config vs =
     \<lparr>videos = vs, rate_limit_delay = None, prompt_template = Some (PStr ''Summarise''),
      course_context = None, output_format = None\<rparr>"

definition empty_world :: world where
  "empty_world = \<lparr>uploaded_files = Map.empty, fs = Map.empty, dirs = {}, calls = []\<rparr>"

definition world_with_video :: world where
  "world_with_video = empty_world\<lparr>fs := [''a.mp4'' \<mapsto> ''bytes'']\<rparr>"

definition job_remote :: pydict where
  "job_remote =
     [''youtube_url'' \<mapsto> PStr ''https://youtu.be/abc123'', ''title'' \<mapsto> PStr ''T'',
      ''section'' \<mapsto> PStr ''S'', ''output'' \<mapsto> PStr ''out/T.md'']"


definition job_vimeo :: pydict where
  "job_vimeo = [''youtube_url'' \<mapsto> PStr ''https://vimeo.com/abc123'', ''output'' \<mapsto> PStr ''out/v.md'']"

definition job_no_source :: pydict where
  "job_no_source = [''title'' \<mapsto> PStr ''No source'', ''output'' \<mapsto> PStr ''out/x.md'']"

definition local_job :: "string \<Rightarrow> string \<Rightarrow> pydict" where
  "local_job i p = [''id'' \<mapsto> PStr i, ''path'' \<mapsto> PStr p, ''output'' \<mapsto> PStr (''out/'' @ i @ ''.md'')]"

definition job_missing :: pydict where
  "job_missing = (local_job ''gone'' ''missing.mp4'')(''title'' \<mapsto> PStr ''Gone'')"

definition demo_batch :: "pydict list" where
  "demo_batch = [job_remote, job_missing, job_remote]"


definition demo_document :: string where
  "demo_document =
     ''# T'' @ nl @ nl @ ''**Section:** S'' @ nl @ ''**Extracted:** 2025-01-01'' @ nl
     @ ''**YouTube URL:** https://youtu.be/abc123'' @ nl @ nl @ ''---'' @ nl @ nl @ nl @ ''BODY''"

definition demo_generate :: event where
  "demo_generate = GenerateContent ''https://youtu.be/abc123'' ''video/mp4'' ''Summarise''"

text \<open>The program's state once \<open>job_remote\<close> has been processed, with log \<open>cs\<close>.\<close>

definition demo_world :: "event list \<Rightarrow> world" where
  "demo_world cs =
     \<lparr>uploaded_files = [''https://youtu.be/abc123'' \<mapsto>
                          YouTubeVideo ''https://youtu.be/abc123'' ''video/mp4'' ''T''],
      fs = [''out/T.md'' \<mapsto> demo_document], dirs = {}, calls = cs\<rparr>"

definition demo_summary :: summary where
  "demo_summary =
     \<lparr>total = 3, success = 2, failed = 1,
      errors = Some [\<lparr>video = PStr ''Gone'', source = PStr ''missing.mp4''\<rparr>]\<rparr>"

definition cached_world :: world where
  "cached_world =
     empty_world\<lparr>uploaded_files := [''https://youtu.be/abc123'' \<mapsto>
                     YouTubeVideo ''https://youtu.be/abc123'' ''video/mp4'' ''T'']\<rparr>"

definition uploaded_world :: world where
  "uploaded_world =
     world_with_video\<lparr>uploaded_files := [''a.mp4'' \<mapsto> Uploaded (demo_file ACTIVE)],
                      calls := [FilesUpload ''a.mp4'' ''a'']\<rparr>"

definition demo_poll_calls :: "event list" where
  "demo_poll_calls =
     [FilesUpload ''a.mp4'' ''a'', PollSleep 2, FilesGet ''files/a'', PollSleep 2, FilesGet ''files/a'']"


section \<open>Lemmas\<close>

subsection \<open>The counters of the summary\<close>

lemma record_result_counts:
  "total (record_result r v ok) = total r"
  "success (record_result r v ok) + failed (record_result r v ok) = Suc (success r + failed r)"
  by (simp_all add: record_result_def Let_def)

lemma record_result_errors:
  assumes "errors r = Some es" and "length es = failed r"
  shows "\<exists>es'. errors (record_result r v ok) = Some es' \<and> length es' = failed (record_result r v ok)"
  using assms by (simp add: record_result_def Let_def)

lemma batch_loop_Cons_Inr:
  assumes "batch_loop env cfg n i (v # vs) r w = Some (Inr s, w')"
  shows "\<exists>ok w1. process_video env cfg w v = Some (Inr ok, w1)
           \<and> batch_loop env cfg n (Suc i) vs (record_result r v ok) (pace cfg n i w1) = Some (Inr s, w')"
proof (cases "process_video env cfg w v")
  case None
  with assms show ?thesis by simp
next
  case (Some a)
  obtain x w1 where a: "a = (x, w1)" by (cases a)
  show ?thesis
  proof (cases x)
    case (Inl e)
    with assms Some a show ?thesis by simp
  next
    case (Inr ok)
    with assms Some a show ?thesis by simp
  qed
qed

lemma batch_loop_summary:
  assumes "batch_loop env cfg n i vs r w = Some (Inr s, w')"
    and "errors r = Some es" and "length es = failed r"
  shows "total s = total r \<and> success s + failed s = success r + failed r + length vs
         \<and> (\<exists>es'. errors s = Some es' \<and> length es' = failed s)"
  using assms
proof (induction vs arbitrary: i r w es)
  case Nil
  then show ?case by simp
next
  case (Cons v vs)
  from batch_loop_Cons_Inr [OF Cons.prems(1)] obtain ok w1 where
    pv: "process_video env cfg w v = Some (Inr ok, w1)" and
    rest: "batch_loop env cfg n (Suc i) vs (record_result r v ok) (pace cfg n i w1) = Some (Inr s, w')"
    by blast
  from record_result_errors [OF Cons.prems(2,3)] obtain es' where
    es': "errors (record_result r v ok) = Some es'" "length es' = failed (record_result r v ok)"
    by blast
  from Cons.IH [OF rest es'] show ?case
    using record_result_counts [of r v ok] by simp
qed

subsection \<open>Growth of the log\<close>

lemma extends_refl: "extends P w w"
  by (simp add: extends_def)

lemma extends_trans: "extends P w w1 \<Longrightarrow> extends P w1 w2 \<Longrightarrow> extends P w w2"
  by (auto simp: extends_def)



lemma poll_frame_refl: "poll_frame w w"
  by (simp add: poll_frame_def extends_refl)

lemma poll_frame_trans: "poll_frame w w1 \<Longrightarrow> poll_frame w1 w2 \<Longrightarrow> poll_frame w w2"
  by (auto simp: poll_frame_def intro: extends_trans)

lemma poll_frame_round: "poll_frame w (log (log w (PollSleep k)) (FilesGet n))"
  by (simp add: poll_frame_def log_def extends_def)

subsection \<open>The polling loop\<close>

lemma wait_processing_unfold:
  "wait_processing env f w =
     (if f_state f = PROCESSING then
        (case svc_get env (calls w @ [PollSleep 2]) (f_name f) of
           Inl e \<Rightarrow> Some (Inl e, log (log w (PollSleep 2)) (FilesGet (f_name f)))
         | Inr g \<Rightarrow> wait_processing env g (log (log w (PollSleep 2)) (FilesGet (f_name f))))
      else Some (Inr f, w))"
  by (subst wait_processing.simps) (simp add: Let_def log_def split: sum.split)

lemma wait_processing_done:
  "f_state f \<noteq> PROCESSING \<Longrightarrow> wait_processing env f w = Some (Inr f, w)"
  by (subst wait_processing_unfold) simp

lemma wait_processing_frame_step:
  assumes IH: "\<And>e f w y. wp e f w = Some y \<Longrightarrow> poll_frame w (snd y)"
    and body: "(if f_state f = PROCESSING then
        (let w1 = log w (PollSleep 2);
             w2 = log w1 (FilesGet (f_name f))
         in case svc_get env (calls w1) (f_name f) of
              Inl e \<Rightarrow> Some (Inl e, w2)
            | Inr g \<Rightarrow> wp env g w2)
      else Some (Inr f, w)) = Some y"
  shows "poll_frame w (snd y)"
proof (cases "f_state f = PROCESSING")
  case False
  with body have "y = (Inr f, w)" by auto
  then show ?thesis by (simp add: poll_frame_refl)
next
  case True
  let ?w2 = "log (log w (PollSleep 2)) (FilesGet (f_name f))"
  show ?thesis
  proof (cases "svc_get env (calls (log w (PollSleep 2))) (f_name f)")
    case (Inl e)
    with True body have "y = (Inl e, ?w2)" by (simp add: Let_def)
    then show ?thesis by (simp add: poll_frame_round)
  next
    case (Inr g)
    with True body have "wp env g ?w2 = Some y" by (simp add: Let_def)
    from IH [OF this] show ?thesis
      using poll_frame_round poll_frame_trans by blast
  qed
qed

lemma wait_processing_frame:
  assumes "wait_processing env f w = Some (r, w')"
  shows "poll_frame w w'"
proof -
  note r = wait_processing.raw_induct [where P = "\<lambda>e f w y. poll_frame w (snd y)"]
  have "poll_frame w (snd (r, w'))"
    by (rule r [OF _ assms]) (rule wait_processing_frame_step)
  then show ?thesis by simp
qed

lemma wait_processing_result_step:
  assumes IH: "\<And>e f w y. wp e f w = Some y \<Longrightarrow> (\<forall>g. fst y = Inr g \<longrightarrow> f_state g \<noteq> PROCESSING)"
    and body: "(if f_state f = PROCESSING then
        (let w1 = log w (PollSleep 2);
             w2 = log w1 (FilesGet (f_name f))
         in case svc_get env (calls w1) (f_name f) of
              Inl e \<Rightarrow> Some (Inl e, w2)
            | Inr g \<Rightarrow> wp env g w2)
      else Some (Inr f, w)) = Some y"
  shows "\<forall>g. fst y = Inr g \<longrightarrow> f_state g \<noteq> PROCESSING"
proof (cases "f_state f = PROCESSING")
  case False
  with body have "y = (Inr f, w)" by auto
  with False show ?thesis by simp
next
  case True
  let ?w2 = "log (log w (PollSleep 2)) (FilesGet (f_name f))"
  show ?thesis
  proof (cases "svc_get env (calls (log w (PollSleep 2))) (f_name f)")
    case (Inl e)
    with True body have "y = (Inl e, ?w2)" by (simp add: Let_def)
    then show ?thesis by simp
  next
    case (Inr g)
    with True body have "wp env g ?w2 = Some y" by (simp add: Let_def)
    from IH [OF this] show ?thesis .
  qed
qed

lemma wait_processing_result:
  assumes "wait_processing env f w = Some (Inr g, w')"
  shows "f_state g \<noteq> PROCESSING"
proof -
  note r = wait_processing.raw_induct
             [where P = "\<lambda>e f w y. \<forall>g. fst y = Inr g \<longrightarrow> f_state g \<noteq> PROCESSING"]
  have "\<forall>g'. fst (Inr g :: error + file_obj, w') = Inr g' \<longrightarrow> f_state g' \<noteq> PROCESSING"
    by (rule r [OF _ assms]) (rule wait_processing_result_step)
  then show ?thesis by simp
qed

subsection \<open>What each method adds to the log\<close>

lemma in_job_simps [simp]: "is_poll e \<Longrightarrow> in_job e" "is_upload e \<Longrightarrow> in_job e" "is_generate e \<Longrightarrow> in_job e"
  by (cases e; simp add: in_job_def)+

lemma create_youtube_video_object_frame:
  assumes "create_youtube_video_object w url dn = (h, w')"
  shows "fs w' = fs w \<and> dirs w' = dirs w \<and> calls w' = calls w \<and> uploaded_files w' url = Some h"
  using assms by (auto simp: create_youtube_video_object_def Let_def split: option.splits)

lemma upload_video_cases:
  assumes "upload_video env w p dn = Some (r, w')"
  shows "(w' = w \<and> (r = Inl (FileNotFoundError p) \<and> fs w p = None
                    \<or> (\<exists>h. r = Inr h \<and> uploaded_files w p = Some h \<and> fs w p \<noteq> None)))
         \<or> (fs w p \<noteq> None \<and> uploaded_files w p = None
             \<and> (\<exists>d w1. poll_frame (log w (FilesUpload p d)) w1
                   \<and> ((\<exists>e. r = Inl e \<and> w' = w1)
                       \<or> (\<exists>f. r = Inr (Uploaded f) \<and> f_state f \<noteq> FAILED \<and> f_state f \<noteq> PROCESSING
                            \<and> w' = w1\<lparr>uploaded_files := (uploaded_files w1)(p \<mapsto> Uploaded f)\<rparr>))))"
proof (cases "fs w p = None")
  case True
  with assms show ?thesis by (simp add: upload_video_def)
next
  case ex: False
  then obtain c where c: "fs w p = Some c" by blast
  show ?thesis
  proof (cases "uploaded_files w p")
    case (Some h)
    with c assms show ?thesis by (auto simp: upload_video_def)
  next
    case nc: None
    define d where "d = upload_display_name env p dn"
    let ?w1 = "log w (FilesUpload p d)"
    show ?thesis
    proof (cases "svc_upload env (calls w) p d")
      case (Inl e)
      with c nc assms have "r = Inl e \<and> w' = ?w1"
        by (auto simp: upload_video_def Let_def d_def)
      with ex nc show ?thesis using poll_frame_refl by blast
    next
      case (Inr f0)
      show ?thesis
      proof (cases "wait_processing env f0 ?w1")
        case wn: None
        with c nc Inr assms show ?thesis
          by (simp add: upload_video_def Let_def d_def)
      next
        case (Some a)
        obtain x w2 where a: "a = (x, w2)" by (cases a)
        from wait_processing_frame Some a have pf: "poll_frame ?w1 w2" by blast
        show ?thesis
        proof (cases x)
          case xl: (Inl e)
          with xl c nc Inr Some a assms have "r = Inl e \<and> w' = w2"
            by (simp add: upload_video_def Let_def d_def)
          with ex nc pf show ?thesis by blast
        next
          case xr: (Inr f)
          have np: "f_state f \<noteq> PROCESSING"
            using wait_processing_result Some a xr by blast
          show ?thesis
          proof (cases "f_state f = FAILED")
            case True
            with xr c nc Inr Some a assms
            have "r = Inl (Exception ''Video processing failed'') \<and> w' = w2"
              by (simp add: upload_video_def Let_def d_def)
            with ex nc pf show ?thesis by blast
          next
            case False
            with xr c nc Inr Some a assms
            have "r = Inr (Uploaded f) \<and> w' = w2\<lparr>uploaded_files := (uploaded_files w2)(p \<mapsto> Uploaded f)\<rparr>"
              by (simp add: upload_video_def Let_def d_def)
            with ex nc pf False np show ?thesis by blast
          qed
        qed
      qed
    qed
  qed
qed







subsection \<open>The log of a batch\<close>




subsection \<open>Outcomes of the jobs of a batch\<close>

lemma process_video_catches:
  assumes "job ''output'' = Some out"
    and "truthy (dict_get job ''youtube_url'') \<or> truthy (dict_get job ''path'')"
    and "process_video_try env cfg w job out = Some (Inl e, w1)"
  shows "process_video env cfg w job = Some (Inr False, w1)"
  using assms by (auto simp: process_video_def)

lemma batch_loop_all_succeed:
  assumes "length ws = Suc (length vs)"
    and "\<forall>j<length vs. \<exists>w1. process_video env cfg (ws ! j) (vs ! j) = Some (Inr True, w1)
                            \<and> ws ! Suc j = pace cfg n (i + j) w1"
  shows "batch_loop env cfg n i vs r (ws ! 0)
           = Some (Inr (r\<lparr>success := success r + length vs\<rparr>), ws ! length vs)"
  using assms
proof (induction vs arbitrary: ws i r)
  case Nil
  then show ?case by simp
next
  case (Cons v vs)
  from Cons.prems(1) obtain w0 ws' where ws: "ws = w0 # ws'" "length ws' = Suc (length vs)"
    by (cases ws) auto
  from Cons.prems(2) [rule_format, of 0] ws obtain w1 where
    pv: "process_video env cfg w0 v = Some (Inr True, w1)" and w1: "ws' ! 0 = pace cfg n i w1"
    by auto
  have rest: "\<forall>j<length vs. \<exists>w1. process_video env cfg (ws' ! j) (vs ! j) = Some (Inr True, w1)
                            \<and> ws' ! Suc j = pace cfg n (Suc i + j) w1"
  proof (intro allI impI)
    fix j assume "j < length vs"
    with Cons.prems(2) [rule_format, of "Suc j"] ws
    show "\<exists>w1. process_video env cfg (ws' ! j) (vs ! j) = Some (Inr True, w1)
                            \<and> ws' ! Suc j = pace cfg n (Suc i + j) w1"
      by simp
  qed
  from Cons.IH [OF ws(2) rest, of "record_result r v True"] pv w1 ws
  show ?case by (simp add: record_result_def)
qed

lemma batch_loop_one_failure:
  assumes "length ws = Suc (length vs)"
    and "\<forall>j<length vs. \<exists>w1. process_video env cfg (ws ! j) (vs ! j) = Some (Inr (j \<noteq> k), w1)
                            \<and> ws ! Suc j = pace cfg n (i + j) w1"
    and "k < length vs"
  shows "batch_loop env cfg n i vs r (ws ! 0)
           = Some (Inr (r\<lparr>success := success r + (length vs - 1), failed := failed r + 1,
                          errors := map_option (\<lambda>es. es @ [failure_entry (vs ! k)]) (errors r)\<rparr>),
                   ws ! length vs)"
  using assms
proof (induction vs arbitrary: ws i r k)
  case Nil
  then show ?case by simp
next
  case (Cons v vs)
  from Cons.prems(1) obtain w0 ws' where ws: "ws = w0 # ws'" "length ws' = Suc (length vs)"
    by (cases ws) auto
  from Cons.prems(2) [rule_format, of 0] ws obtain w1 where
    pv: "process_video env cfg w0 v = Some (Inr (0 \<noteq> k), w1)" and w1: "ws' ! 0 = pace cfg n i w1"
    by auto
  show ?case
  proof (cases k)
    case 0
    have rest: "\<forall>j<length vs. \<exists>w1. process_video env cfg (ws' ! j) (vs ! j) = Some (Inr True, w1)
                            \<and> ws' ! Suc j = pace cfg n (Suc i + j) w1"
    proof (intro allI impI)
      fix j assume "j < length vs"
      with Cons.prems(2) [rule_format, of "Suc j"] ws 0
      show "\<exists>w1. process_video env cfg (ws' ! j) (vs ! j) = Some (Inr True, w1)
                            \<and> ws' ! Suc j = pace cfg n (Suc i + j) w1"
        by simp
    qed
    from batch_loop_all_succeed [OF ws(2) rest, of "record_result r v False"] pv w1 ws 0
    show ?thesis by (simp add: record_result_def)
  next
    case (Suc k')
    have rest: "\<forall>j<length vs. \<exists>w1. process_video env cfg (ws' ! j) (vs ! j) = Some (Inr (j \<noteq> k'), w1)
                            \<and> ws' ! Suc j = pace cfg n (Suc i + j) w1"
    proof (intro allI impI)
      fix j assume "j < length vs"
      with Cons.prems(2) [rule_format, of "Suc j"] ws Suc
      show "\<exists>w1. process_video env cfg (ws' ! j) (vs ! j) = Some (Inr (j \<noteq> k'), w1)
                            \<and> ws' ! Suc j = pace cfg n (Suc i + j) w1"
        by simp
    qed
    from Cons.prems(3) Suc have k': "k' < length vs" by simp
    then have "vs \<noteq> []" by auto
    from Cons.IH [OF ws(2) rest k', of "record_result r v True"] pv w1 ws Suc k'
    show ?thesis by (simp add: record_result_def)
  qed
qed

subsection \<open>The cache of prepared sources\<close>

lemma is_poll_not_upload: "is_poll e \<Longrightarrow> \<not> is_upload e"
  by (cases e) simp_all

lemma upload_video_second_call:
  assumes "upload_video env w p dn = Some (Inr h, w')"
  shows "upload_video env w' p dn' = Some (Inr h, w')
         \<and> uploaded_files w' p = Some h
         \<and> (\<exists>evs. calls w' = calls w @ evs \<and> length (filter is_upload evs) \<le> 1)"
proof -
  from upload_video_cases [OF assms] consider
      (cached) "w' = w" "uploaded_files w p = Some h" "fs w p \<noteq> None"
    | (fresh) d w1 f where "fs w p \<noteq> None" "poll_frame (log w (FilesUpload p d)) w1"
        "h = Uploaded f" "w' = w1\<lparr>uploaded_files := (uploaded_files w1)(p \<mapsto> Uploaded f)\<rparr>"
    by auto
  then show ?thesis
  proof cases
    case cached
    then show ?thesis by (auto simp: upload_video_def)
  next
    case fresh
    from fresh(2) obtain evs where
      evs: "calls w1 = calls (log w (FilesUpload p d)) @ evs" "list_all is_poll evs"
      and fs1: "fs w1 = fs w"
      by (auto simp: poll_frame_def extends_def log_def)
    from evs(2) have "filter is_upload evs = []"
      by (auto simp: filter_empty_conv list_all_iff dest: is_poll_not_upload)
    with evs(1) fresh(4) have "calls w' = calls w @ (FilesUpload p d # evs)
        \<and> length (filter is_upload (FilesUpload p d # evs)) \<le> 1"
      by (simp add: log_def)
    moreover from fresh fs1 have "upload_video env w' p dn' = Some (Inr h, w')"
      by (auto simp: upload_video_def)
    moreover from fresh have "uploaded_files w' p = Some h" by simp
    ultimately show ?thesis by blast
  qed
qed

subsection \<open>Rounds of the polling loop\<close>

lemma poll_log_shift:
  "poll_log gs (Suc n) = [PollSleep 2, FilesGet (f_name (gs 0))] @ poll_log (\<lambda>i. gs (Suc i)) n"
  by (induction n) simp_all

lemma wait_processing_polls:
  assumes "poll_answers env (calls w) gs n" and "f_state (gs n) \<noteq> PROCESSING"
  shows "wait_processing env (gs 0) w = Some (Inr (gs n), w\<lparr>calls := calls w @ poll_log gs n\<rparr>)"
  using assms
proof (induction n arbitrary: gs w)
  case 0
  then show ?case by (simp add: wait_processing_done)
next
  case (Suc n)
  let ?w2 = "log (log w (PollSleep 2)) (FilesGet (f_name (gs 0)))"
  let ?gs = "\<lambda>i. gs (Suc i)"
  from Suc.prems(1) have all: "\<forall>i<Suc n. f_state (gs i) = PROCESSING
      \<and> svc_get env (calls w @ poll_log gs i @ [PollSleep 2]) (f_name (gs i)) = Inr (gs (Suc i))"
    by (simp add: poll_answers_def)
  from all [rule_format, of 0]
  have first: "f_state (gs 0) = PROCESSING"
    "svc_get env (calls w @ [PollSleep 2]) (f_name (gs 0)) = Inr (gs 1)"
    by simp_all
  have rest: "poll_answers env (calls ?w2) ?gs n"
    unfolding poll_answers_def
  proof (intro allI impI)
    fix i assume "i < n"
    with all [rule_format, of "Suc i"]
    show "f_state (?gs i) = PROCESSING
        \<and> svc_get env (calls ?w2 @ poll_log ?gs i @ [PollSleep 2]) (f_name (?gs i)) = Inr (?gs (Suc i))"
      by (simp add: log_def poll_log_shift del: poll_log.simps)
  qed
  from Suc.IH [of ?w2 ?gs, OF rest] Suc.prems(2)
  have "wait_processing env (gs 1) ?w2 = Some (Inr (gs (Suc n)), ?w2\<lparr>calls := calls ?w2 @ poll_log ?gs n\<rparr>)"
    by simp
  moreover have "?w2\<lparr>calls := calls ?w2 @ poll_log ?gs n\<rparr> = w\<lparr>calls := calls w @ poll_log gs (Suc n)\<rparr>"
    by (simp add: log_def poll_log_shift del: poll_log.simps)
  ultimately show ?case
    using first by (subst wait_processing_unfold) simp
qed

lemma wait_processing_hangs_step:
  assumes IH: "\<And>e f w y. wp e f w = Some y \<Longrightarrow> \<not> (always_processing e \<and> f_state f = PROCESSING)"
    and body: "(if f_state f = PROCESSING then
        (let w1 = log w (PollSleep 2);
             w2 = log w1 (FilesGet (f_name f))
         in case svc_get env (calls w1) (f_name f) of
              Inl e \<Rightarrow> Some (Inl e, w2)
            | Inr g \<Rightarrow> wp env g w2)
      else Some (Inr f, w)) = Some y"
  shows "\<not> (always_processing env \<and> f_state f = PROCESSING)"
proof
  assume a: "always_processing env \<and> f_state f = PROCESSING"
  then obtain g where g: "svc_get env (calls (log w (PollSleep 2))) (f_name f) = Inr g"
      "f_state g = PROCESSING"
    unfolding always_processing_def by blast
  with a body have "wp env g (log (log w (PollSleep 2)) (FilesGet (f_name f))) = Some y"
    by (simp add: Let_def)
  from IH [OF this] a g show False by simp
qed

lemma wait_processing_hangs:
  assumes "always_processing env" and "f_state f = PROCESSING"
  shows "wait_processing env f w = None"
proof (rule ccontr)
  assume "wait_processing env f w \<noteq> None"
  then obtain y where y: "wait_processing env f w = Some y" by blast
  note r = wait_processing.raw_induct
             [where P = "\<lambda>e f w y. \<not> (always_processing e \<and> f_state f = PROCESSING)"]
  have "\<not> (always_processing env \<and> f_state f = PROCESSING)"
    by (rule r [OF _ y]) (rule wait_processing_hangs_step)
  with assms show False by simp
qed

subsection \<open>Cases of \<open>upload_video\<close>\<close>

lemma upload_video_missing:
  "fs w p = None \<Longrightarrow> upload_video env w p dn = Some (Inl (FileNotFoundError p), w)"
  by (simp add: upload_video_def)

lemma upload_video_fresh:
  assumes "fs w p \<noteq> None" and "uploaded_files w p = None"
    and "svc_upload env (calls w) p (upload_display_name env p dn) = Inr f0"
  shows "upload_video env w p dn =
     (case wait_processing env f0 (log w (FilesUpload p (upload_display_name env p dn))) of
        None \<Rightarrow> None
      | Some (Inl e, w2) \<Rightarrow> Some (Inl e, w2)
      | Some (Inr f, w2) \<Rightarrow>
          if f_state f = FAILED
          then Some (Inl (Exception ''Video processing failed''), w2)
          else Some (Inr (Uploaded f),
                 w2\<lparr>uploaded_files := (uploaded_files w2)(p \<mapsto> Uploaded f)\<rparr>))"
  using assms by (auto simp: upload_video_def Let_def)

subsection \<open>A job with a remote URL\<close>

lemma header_youtube:
  assumes "job ''youtube_url'' = Some (PStr u)" and "u \<noteq> []"
  shows "generate_metadata_header env job =
     ''# '' @ py_str (dict_get_default job ''title'' (PStr ''Untitled'')) @ nl @ nl
     @ ''**Section:** '' @ py_str (dict_get_default job ''section'' (PStr ''Unknown Section'')) @ nl
     @ ''**Extracted:** '' @ today env @ nl
     @ ''**YouTube URL:** '' @ u @ nl @ nl @ ''---'' @ nl"
  using assms by (simp add: generate_metadata_header_def dict_get_def py_or_def Let_def)







subsection \<open>The job filter\<close>










subsection \<open>Well-formed jobs\<close>

lemma process_video_well_formed:
  assumes "well_formed_job job" and "process_video env cfg w job = Some (r, w1)"
  shows "\<exists>ok. r = Inr ok"
  using assms
  by (auto simp: well_formed_job_def process_video_def split: option.splits sum.splits prod.splits)

lemma process_video_ill_formed:
  assumes "\<not> well_formed_job job"
  shows "\<exists>e. process_video env cfg w job = Some (Inl e, w)"
  using assms by (auto simp: well_formed_job_def process_video_def split: option.splits)

text \<open>
  A batch that returns at all returns a summary exactly when every job it was given is
  well formed.
\<close>

lemma batch_loop_well_formed:
  assumes "\<forall>v\<in>set vs. well_formed_job v" and "batch_loop env cfg n i vs r w = Some (x, w')"
  shows "\<exists>s. x = Inr s"
  using assms
proof (induction vs arbitrary: i r w)
  case Nil
  then show ?case by auto
next
  case (Cons v vs)
  from Cons.prems(2) obtain y w1 where pv: "process_video env cfg w v = Some (y, w1)"
    by (cases "process_video env cfg w v") auto
  from Cons.prems(1) have "well_formed_job v" by simp
  from process_video_well_formed [OF this pv] obtain ok where ok: "y = Inr ok" by blast
  with pv Cons.prems(2)
  have "batch_loop env cfg n (i + 1) vs (record_result r v ok) (pace cfg n i w1) = Some (x, w')"
    by simp
  with Cons.IH Cons.prems(1) show ?case by simp
qed

lemma batch_loop_summary_well_formed:
  assumes "batch_loop env cfg n i vs r w = Some (Inr s, w')"
  shows "\<forall>v\<in>set vs. well_formed_job v"
  using assms
proof (induction vs arbitrary: i r w)
  case Nil
  then show ?case by simp
next
  case (Cons v vs)
  from batch_loop_Cons_Inr [OF Cons.prems] obtain ok w1 where
    pv: "process_video env cfg w v = Some (Inr ok, w1)" and
    rest: "batch_loop env cfg n (Suc i) vs (record_result r v ok) (pace cfg n i w1) = Some (Inr s, w')"
    by blast
  have "well_formed_job v"
  proof (rule ccontr)
    assume "\<not> well_formed_job v"
    from process_video_ill_formed [OF this, of env cfg w] pv show False by auto
  qed
  with Cons.IH [OF rest] show ?case by simp
qed

subsection \<open>The example inputs, evaluated\<close>

lemmas demo_defs = demo_env_def demo_config_def empty_world_def job_remote_def local_job_def
  job_missing_def demo_document_def demo_generate_def demo_world_def

lemmas run_defs = process_video_def process_video_try_def create_youtube_video_object_def
  upload_video_def extract_content_def build_extraction_prompt_def save_markdown_def
  generate_metadata_header_def dict_get_def dict_get_default_def py_or_def cfg_get_def log_def
  Let_def

lemma demo_remote_first:
  "process_video demo_env (demo_config vs) empty_world job_remote
     = Some (Inr True, demo_world [demo_generate])"
  by (simp add: run_defs demo_defs)

lemma demo_remote_again:
  "process_video demo_env (demo_config vs) (demo_world cs) job_remote
     = Some (Inr True, demo_world (cs @ [demo_generate]))"
  by (simp add: run_defs demo_defs)

lemma demo_missing_try:
  "process_video_try demo_env (demo_config vs) (demo_world cs) job_missing (PStr ''out/gone.md'')
     = Some (Inl (FileNotFoundError ''missing.mp4''), demo_world cs)"
  by (simp add: run_defs demo_defs)

lemma demo_missing:
  "process_video demo_env (demo_config vs) (demo_world cs) job_missing
     = Some (Inr False, demo_world cs)"
  by (simp add: run_defs demo_defs)


lemma demo_pace:
  "i < n \<Longrightarrow> pace (demo_config vs) n i (demo_world cs) = demo_world (cs @ [RateLimitSleep 2])"
  by (simp add: pace_def log_def rate_limit_seconds_def demo_config_def demo_world_def)

lemma demo_pace_last: "\<not> i < n \<Longrightarrow> pace cfg n i w = w"
  by (simp add: pace_def)

lemma videos_demo_config: "videos (demo_config vs) = vs"
  by (simp add: demo_config_def)

lemma failure_entry_missing:
  "failure_entry job_missing = \<lparr>video = PStr ''Gone'', source = PStr ''missing.mp4''\<rparr>"
  by (simp add: failure_entry_def job_missing_def local_job_def dict_get_def dict_get_default_def
        py_or_def Let_def)

lemma demo_batch_run:
  "process_batch demo_env (demo_config demo_batch) None empty_world
     = Some (Inr demo_summary,
             demo_world [demo_generate, RateLimitSleep 2, RateLimitSleep 2, demo_generate])"
  by (simp add: process_batch_def resolve_videos_def demo_batch_def videos_demo_config
        demo_remote_first demo_remote_again demo_missing demo_pace demo_pace_last
        record_result_def failure_entry_missing demo_summary_def Let_def)

section \<open>The claims\<close>

subsection \<open>C1: one failing job does not abort the batch\<close>

text \<open>
  C1. A batch whose resolved job list is \<open>vs\<close> runs from the state \<open>ws ! 0\<close>;
  \<open>ws ! j\<close> is the state in which job \<open>j\<close> starts, that is the state job \<open>j - 1\<close>
  left, after the pause. Job
  \<open>k\<close> names an output and a source, and some stage inside the \<open>try\<close> block
  (preparation, extraction or writing) raises an exception \<open>e\<close>, whatever it is; every
  other job succeeds. Then \<open>process_video\<close> turns the exception of job \<open>k\<close> into the
  result \<open>False\<close>, and the batch runs every job to the end and returns the summary with
  \<open>total = N\<close>, \<open>success = N - 1\<close>, \<open>failed = 1\<close> and a failure list that holds exactly
  the title and source of job \<open>k\<close>.
\<close>

theorem batch_isolates_failing_job:
  assumes vs: "resolve_videos cfg video_list = vs"
    and k: "k < length vs" and ws: "length ws = Suc (length vs)"
    and others: "\<forall>j<length vs. j \<noteq> k \<longrightarrow>
          (\<exists>w1. process_video env cfg (ws ! j) (vs ! j) = Some (Inr True, w1)
                \<and> ws ! Suc j = pace cfg (length vs) (Suc j) w1)"
    and out: "(vs ! k) ''output'' = Some out"
    and src: "truthy (dict_get (vs ! k) ''youtube_url'') \<or> truthy (dict_get (vs ! k) ''path'')"
    and fails: "process_video_try env cfg (ws ! k) (vs ! k) out = Some (Inl e, wk)"
    and next_w: "ws ! Suc k = pace cfg (length vs) (Suc k) wk"
  shows "process_video env cfg (ws ! k) (vs ! k) = Some (Inr False, wk)
         \<and> process_batch env cfg video_list (ws ! 0)
             = Some (Inr \<lparr>total = length vs, success = length vs - 1, failed = 1,
                          errors = Some [failure_entry (vs ! k)]\<rparr>,
                     ws ! length vs)"
proof
  show caught: "process_video env cfg (ws ! k) (vs ! k) = Some (Inr False, wk)"
    using out src fails by (rule process_video_catches)
  have all: "\<forall>j<length vs. \<exists>w1. process_video env cfg (ws ! j) (vs ! j) = Some (Inr (j \<noteq> k), w1)
                            \<and> ws ! Suc j = pace cfg (length vs) (1 + j) w1"
  proof (intro allI impI)
    fix j assume j: "j < length vs"
    show "\<exists>w1. process_video env cfg (ws ! j) (vs ! j) = Some (Inr (j \<noteq> k), w1)
                            \<and> ws ! Suc j = pace cfg (length vs) (1 + j) w1"
    proof (cases "j = k")
      case True
      with caught next_w show ?thesis by simp
    next
      case False
      with others j show ?thesis by simp
    qed
  qed
  from k have ne: "vs \<noteq> []" by auto
  from batch_loop_one_failure [OF ws all k,
         of "\<lparr>total = length vs, success = 0, failed = 0, errors = Some []\<rparr>"] ne vs
  show "process_batch env cfg video_list (ws ! 0)
             = Some (Inr \<lparr>total = length vs, success = length vs - 1, failed = 1,
                          errors = Some [failure_entry (vs ! k)]\<rparr>,
                     ws ! length vs)"
    by (simp add: process_batch_def)
qed

text \<open>
  Three jobs, the second with a local path that does not exist: two successes, one
  failure, and the third job has run (its call is the last of the log).
\<close>

theorem batch_isolates_failing_job_witness:
  "process_video demo_env (demo_config demo_batch)
       (demo_world [demo_generate, RateLimitSleep 2]) job_missing
     = Some (Inr False, demo_world [demo_generate, RateLimitSleep 2])
   \<and> process_batch demo_env (demo_config demo_batch) None empty_world
     = Some (Inr demo_summary,
             demo_world [demo_generate, RateLimitSleep 2, RateLimitSleep 2, demo_generate])"
proof -
  let ?cfg = "demo_config demo_batch"
  let ?ws = "[empty_world, demo_world [demo_generate, RateLimitSleep 2],
              demo_world [demo_generate, RateLimitSleep 2, RateLimitSleep 2],
              demo_world [demo_generate, RateLimitSleep 2, RateLimitSleep 2, demo_generate]]"
  have vs: "resolve_videos ?cfg None = demo_batch"
    by (simp add: resolve_videos_def demo_config_def)
  have k: "1 < length demo_batch" by (simp add: demo_batch_def)
  have ws: "length ?ws = Suc (length demo_batch)" by (simp add: demo_batch_def)
  have others: "\<forall>j<length demo_batch. j \<noteq> 1 \<longrightarrow>
          (\<exists>w1. process_video demo_env ?cfg (?ws ! j) (demo_batch ! j) = Some (Inr True, w1)
                \<and> ?ws ! Suc j = pace ?cfg (length demo_batch) (Suc j) w1)"
  proof (intro allI impI)
    fix j :: nat
    assume "j < length demo_batch" and "j \<noteq> 1"
    then have "j = 0 \<or> j = 2" by (auto simp: demo_batch_def)
    then show "\<exists>w1. process_video demo_env ?cfg (?ws ! j) (demo_batch ! j) = Some (Inr True, w1)
                \<and> ?ws ! Suc j = pace ?cfg (length demo_batch) (Suc j) w1"
    proof
      assume "j = 0"
      then show ?thesis
        by (simp add: demo_batch_def demo_remote_first demo_pace)
    next
      assume "j = 2"
      then show ?thesis
        by (simp add: demo_batch_def demo_remote_again demo_pace_last)
    qed
  qed
  have out: "(demo_batch ! 1) ''output'' = Some (PStr ''out/gone.md'')"
    by (simp add: demo_batch_def job_missing_def local_job_def)
  have src: "truthy (dict_get (demo_batch ! 1) ''youtube_url'')
             \<or> truthy (dict_get (demo_batch ! 1) ''path'')"
    by (simp add: demo_batch_def job_missing_def local_job_def dict_get_def)
  have fails: "process_video_try demo_env ?cfg (?ws ! 1) (demo_batch ! 1) (PStr ''out/gone.md'')
      = Some (Inl (FileNotFoundError ''missing.mp4''), demo_world [demo_generate, RateLimitSleep 2])"
    by (simp add: demo_batch_def demo_missing_try)
  have next_w: "?ws ! Suc 1 = pace ?cfg (length demo_batch) (Suc 1)
                                (demo_world [demo_generate, RateLimitSleep 2])"
    by (simp add: demo_batch_def demo_pace)
  from batch_isolates_failing_job [where cfg = ?cfg and video_list = None and vs = demo_batch
         and k = 1 and ws = ?ws and env = demo_env, OF vs k ws others out src fails next_w]
  show ?thesis
    by (simp add: demo_batch_def demo_summary_def failure_entry_missing)
qed

subsection \<open>C2: the shape of a remote URL\<close>

text \<open>
  C2, as the code has it. \<open>_is_youtube_url\<close> accepts the watch, short and embed forms
  \<open>https://www.youtube.com/watch?v=abc123\<close>, \<open>https://youtu.be/abc123\<close> and
  \<open>https://youtube.com/embed/abc123\<close>, and rejects \<open>https://vimeo.com/abc123\<close>. No
  method calls it: preparing a remote source, \<open>create_youtube_video_object\<close>, returns a
  handle for every URL and caches it under the URL, and a handle made new has that URL
  as its \<open>uri\<close>. There is no rejection of an unsupported source.
\<close>

theorem remote_url_never_rejected:
  "is_youtube_url ''https://youtu.be/abc123''
   \<and> is_youtube_url ''https://www.youtube.com/watch?v=abc123''
   \<and> is_youtube_url ''https://youtube.com/embed/abc123''
   \<and> \<not> is_youtube_url ''https://vimeo.com/abc123''
   \<and> (\<exists>h w'. create_youtube_video_object w url dn = (h, w') \<and> uploaded_files w' url = Some h
         \<and> (uploaded_files w url = None \<longrightarrow> uri h = url))"
proof (intro conjI)
  show "is_youtube_url ''https://youtu.be/abc123''"
    by (simp add: is_youtube_url_def youtube_patterns_def url_head_def re_match_def word_or_hyphen_def)
  show "is_youtube_url ''https://www.youtube.com/watch?v=abc123''"
    by (simp add: is_youtube_url_def youtube_patterns_def url_head_def re_match_def word_or_hyphen_def)
  show "is_youtube_url ''https://youtube.com/embed/abc123''"
    by (simp add: is_youtube_url_def youtube_patterns_def url_head_def re_match_def word_or_hyphen_def)
  show "\<not> is_youtube_url ''https://vimeo.com/abc123''"
    by (simp add: is_youtube_url_def youtube_patterns_def url_head_def re_match_def word_or_hyphen_def)
  show "\<exists>h w'. create_youtube_video_object w url dn = (h, w') \<and> uploaded_files w' url = Some h
         \<and> (uploaded_files w url = None \<longrightarrow> uri h = url)"
    by (auto simp: create_youtube_video_object_def Let_def split: option.splits)
qed

theorem remote_url_never_rejected_witness:
  "uploaded_files empty_world ''https://vimeo.com/abc123'' = None
   \<and> uri (fst (create_youtube_video_object empty_world ''https://vimeo.com/abc123'' PNone))
       = ''https://vimeo.com/abc123''"
proof -
  have none: "uploaded_files empty_world ''https://vimeo.com/abc123'' = None"
    by (simp add: empty_world_def)
  from remote_url_never_rejected [of empty_world "''https://vimeo.com/abc123''" PNone] none
  show ?thesis by auto
qed

text \<open>
  The claim as the specification states it fails: a job whose remote URL is the Vimeo
  address, which matches none of the three patterns, is prepared and processed to the end.
\<close>

theorem unsupported_url_accepted:
  "\<not> is_youtube_url ''https://vimeo.com/abc123''
   \<and> fst (create_youtube_video_object empty_world ''https://vimeo.com/abc123'' PNone)
       = YouTubeVideo ''https://vimeo.com/abc123'' ''video/mp4'' ''https://vimeo.com/abc123''
   \<and> map_option fst (process_video demo_env (demo_config [job_vimeo]) empty_world job_vimeo)
       = Some (Inr True)"
proof (intro conjI)
  show "\<not> is_youtube_url ''https://vimeo.com/abc123''"
    by (simp add: is_youtube_url_def youtube_patterns_def url_head_def re_match_def word_or_hyphen_def)
  show "fst (create_youtube_video_object empty_world ''https://vimeo.com/abc123'' PNone)
       = YouTubeVideo ''https://vimeo.com/abc123'' ''video/mp4'' ''https://vimeo.com/abc123''"
    by (simp add: create_youtube_video_object_def empty_world_def py_or_def Let_def)
  show "map_option fst (process_video demo_env (demo_config [job_vimeo]) empty_world job_vimeo)
       = Some (Inr True)"
    by (simp add: run_defs demo_defs job_vimeo_def)
qed

subsection \<open>C3: a job with no source\<close>

text \<open>
  C3. A job that sets neither \<open>youtube_url\<close> nor \<open>path\<close> (the key absent, empty or
  \<open>None\<close>) makes \<open>process_video\<close> raise before anything else happens: the state,
  and with it the log of calls, is the one it started in. The exception is the
  \<open>ValueError\<close> of line 253, or the \<open>KeyError\<close> of line 249 when the job has no
  \<open>output\<close> either. It is raised outside the \<open>try\<close>, so it also ends the loop of the
  batch that reached the job.
\<close>

theorem job_without_source_rejected:
  assumes "\<not> truthy (dict_get job ''youtube_url'')" and "\<not> truthy (dict_get job ''path'')"
  shows "process_video env cfg w job
           = Some (Inl (if job ''output'' = None then KeyError ''output''
                        else ValueError missing_source_message), w)
         \<and> batch_loop env cfg n i (job # rest) r w
           = Some (Inl (if job ''output'' = None then KeyError ''output''
                        else ValueError missing_source_message), w)"
proof -
  from assms have pv: "process_video env cfg w job
           = Some (Inl (if job ''output'' = None then KeyError ''output''
                        else ValueError missing_source_message), w)"
    by (simp add: process_video_def split: option.splits)
  then show ?thesis by simp
qed

theorem job_without_source_rejected_witness:
  "dict_get job_no_source ''youtube_url'' = PNone \<and> dict_get job_no_source ''path'' = PNone
   \<and> process_video demo_env (demo_config [job_no_source]) world_with_video job_no_source
       = Some (Inl (ValueError missing_source_message), world_with_video)"
proof -
  have u: "\<not> truthy (dict_get job_no_source ''youtube_url'')"
    and p: "\<not> truthy (dict_get job_no_source ''path'')"
    by (simp_all add: job_no_source_def dict_get_def)
  from job_without_source_rejected [where job = job_no_source and env = demo_env
         and cfg = "demo_config [job_no_source]" and w = world_with_video, OF u p]
  show ?thesis by (simp add: job_no_source_def dict_get_def)
qed

subsection \<open>C4: preparing the same source twice\<close>

text \<open>
  C4. When a call of the preparer for a source returns a handle, the next call for the
  same source (whatever display name it is given) returns that same handle, hence the
  same \<open>uri\<close>, and leaves the state as it is: nothing is added to the log, so nothing is
  transmitted again. For a remote URL no call leaves the process at all; for a local
  path the first call has made at most one upload. (For a local path the second call
  still looks whether the file exists before it looks into the cache.)
\<close>

theorem prepare_twice_transmits_once:
  "(create_youtube_video_object w url dn = (h, w') \<longrightarrow>
      create_youtube_video_object w' url dn' = (h, w') \<and> calls w' = calls w)
   \<and> (upload_video env w p dn = Some (Inr h, w') \<longrightarrow>
        upload_video env w' p dn' = Some (Inr h, w')
        \<and> (\<exists>evs. calls w' = calls w @ evs \<and> length (filter is_upload evs) \<le> 1))"
proof (intro conjI impI)
  assume a: "create_youtube_video_object w url dn = (h, w')"
  from create_youtube_video_object_frame [OF a]
  show "create_youtube_video_object w' url dn' = (h, w')"
    by (simp add: create_youtube_video_object_def)
  from create_youtube_video_object_frame [OF a] show "calls w' = calls w" by simp
next
  assume a: "upload_video env w p dn = Some (Inr h, w')"
  from upload_video_second_call [OF a]
  show "upload_video env w' p dn' = Some (Inr h, w')" by blast
  from upload_video_second_call [OF a]
  show "\<exists>evs. calls w' = calls w @ evs \<and> length (filter is_upload evs) \<le> 1" by blast
qed

theorem prepare_twice_transmits_once_witness:
  "create_youtube_video_object empty_world ''https://youtu.be/abc123'' (PStr ''T'')
     = (YouTubeVideo ''https://youtu.be/abc123'' ''video/mp4'' ''T'', cached_world)
   \<and> create_youtube_video_object cached_world ''https://youtu.be/abc123'' PNone
     = (YouTubeVideo ''https://youtu.be/abc123'' ''video/mp4'' ''T'', cached_world)
   \<and> upload_video demo_env world_with_video ''a.mp4'' PNone
     = Some (Inr (Uploaded (demo_file ACTIVE)), uploaded_world)
   \<and> upload_video demo_env uploaded_world ''a.mp4'' (PStr ''again'')
     = Some (Inr (Uploaded (demo_file ACTIVE)), uploaded_world)"
proof -
  note c = prepare_twice_transmits_once
  have y1: "create_youtube_video_object empty_world ''https://youtu.be/abc123'' (PStr ''T'')
     = (YouTubeVideo ''https://youtu.be/abc123'' ''video/mp4'' ''T'', cached_world)"
    by (simp add: create_youtube_video_object_def empty_world_def cached_world_def py_or_def Let_def)
  have u1: "upload_video demo_env world_with_video ''a.mp4'' PNone
     = Some (Inr (Uploaded (demo_file ACTIVE)), uploaded_world)"
    by (simp add: upload_video_def wait_processing_done demo_env_def empty_world_def
          world_with_video_def uploaded_world_def upload_display_name_def demo_file_def log_def)
  from c [where w = empty_world and url = "''https://youtu.be/abc123''" and dn = "PStr ''T''"
            and dn' = PNone, THEN conjunct1, rule_format, OF y1]
  have y2: "create_youtube_video_object cached_world ''https://youtu.be/abc123'' PNone
     = (YouTubeVideo ''https://youtu.be/abc123'' ''video/mp4'' ''T'', cached_world)"
    by simp
  from c [where env = demo_env and w = world_with_video and p = "''a.mp4''" and dn = PNone
            and dn' = "PStr ''again''", THEN conjunct2, rule_format, OF u1]
  have u2: "upload_video demo_env uploaded_world ''a.mp4'' (PStr ''again'')
     = Some (Inr (Uploaded (demo_file ACTIVE)), uploaded_world)"
    by simp
  from y1 y2 u1 u2 show ?thesis by simp
qed

subsection \<open>C5: the written document\<close>

text \<open>
  C5. For a job with title \<open>t\<close>, section \<open>s\<close> and a non-empty remote URL \<open>u\<close>, and
  extracted text \<open>body\<close> (the claim's instance is \<open>T\<close>, \<open>S\<close>,
  \<open>https://youtu.be/abc123\<close> and \<open>BODY\<close>), when the operating system refuses neither the
  directories nor the file: \<open>save_markdown\<close> succeeds; the file at the output path then
  holds the header, two newline characters and the body, whatever was there before;
  the header spells out \<open>t\<close>, \<open>s\<close>, the date and \<open>u\<close>; the parent directories exist;
  no other file has changed.
\<close>

theorem document_round_trip:
  assumes "job ''title'' = Some (PStr t)" and "job ''section'' = Some (PStr s)"
    and "job ''youtube_url'' = Some (PStr u)" and "u \<noteq> []"
    and "mkdir_error env out = None" and "open_error env out = None"
  shows "\<exists>w'. save_markdown env w (PStr body) (PStr out) job = (Inr (), w')
     \<and> fs w' out = Some (generate_metadata_header env job @ nl @ nl @ body)
     \<and> generate_metadata_header env job =
         ''# '' @ t @ nl @ nl @ ''**Section:** '' @ s @ nl @ ''**Extracted:** '' @ today env @ nl
         @ ''**YouTube URL:** '' @ u @ nl @ nl @ ''---'' @ nl
     \<and> set (path_parents env out) \<subseteq> dirs w'
     \<and> (\<forall>q. q \<noteq> out \<longrightarrow> fs w' q = fs w q)"
proof -
  from assms(1,2) header_youtube [where job = job and u = u and env = env, OF assms(3,4)]
  have h: "generate_metadata_header env job =
         ''# '' @ t @ nl @ nl @ ''**Section:** '' @ s @ nl @ ''**Extracted:** '' @ today env @ nl
         @ ''**YouTube URL:** '' @ u @ nl @ nl @ ''---'' @ nl"
    by (simp add: dict_get_default_def)
  from assms(5,6) have "save_markdown env w (PStr body) (PStr out) job =
     (Inr (), w\<lparr>dirs := dirs w \<union> set (path_parents env out),
                fs := (fs w)(out \<mapsto> generate_metadata_header env job @ nl @ nl @ body)\<rparr>)"
    by (simp add: save_markdown_def Let_def)
  with h show ?thesis by auto
qed

text \<open>The instance of the claim, written over an older file at the same path.\<close>

theorem document_round_trip_witness:
  "fs (empty_world\<lparr>fs := [''out/T.md'' \<mapsto> ''old'']\<rparr>) ''out/T.md'' = Some ''old''
   \<and> fs (snd (save_markdown demo_env (empty_world\<lparr>fs := [''out/T.md'' \<mapsto> ''old'']\<rparr>)
                (PStr ''BODY'') (PStr ''out/T.md'') job_remote)) ''out/T.md''
       = Some (''# T'' @ nl @ nl @ ''**Section:** S'' @ nl @ ''**Extracted:** 2025-01-01'' @ nl
               @ ''**YouTube URL:** https://youtu.be/abc123'' @ nl @ nl @ ''---'' @ nl
               @ nl @ nl @ ''BODY'')"
proof -
  have t: "job_remote ''title'' = Some (PStr ''T'')"
    and s: "job_remote ''section'' = Some (PStr ''S'')"
    and u: "job_remote ''youtube_url'' = Some (PStr ''https://youtu.be/abc123'')"
    by (simp_all add: job_remote_def)
  have ne: "''https://youtu.be/abc123'' \<noteq> []" by simp
  have m: "mkdir_error demo_env ''out/T.md'' = None" and p: "open_error demo_env ''out/T.md'' = None"
    by (simp_all add: demo_env_def)
  from document_round_trip [where job = job_remote and env = demo_env and body = "''BODY''"
         and w = "empty_world\<lparr>fs := [''out/T.md'' \<mapsto> ''old'']\<rparr>", OF t s u ne m p]
  show ?thesis by (auto simp: demo_env_def)
qed

subsection \<open>C6: preparing a local file\<close>

text \<open>
  C6. \<open>upload_video\<close> on a path that does not exist raises \<open>FileNotFoundError\<close> and
  calls nothing. On a path that exists and is not yet in the cache, the file is uploaded
  once; then, for every number \<open>n\<close> of rounds, if the service reports \<open>PROCESSING\<close> at
  the upload and at the first \<open>n - 1\<close> polls and something else at poll \<open>n\<close>, the
  method sleeps 2 before each of exactly \<open>n\<close> polls and stops there: on \<open>FAILED\<close> it
  raises the exception "Video processing failed", otherwise it caches and returns the
  file object. No \<open>n\<close> is too large, and against a service that reports \<open>PROCESSING\<close>
  for ever the call never returns.
\<close>

theorem local_preparation:
  "(fs w p = None \<longrightarrow> upload_video env w p dn = Some (Inl (FileNotFoundError p), w))
   \<and> (fs w p \<noteq> None \<and> uploaded_files w p = None
        \<and> svc_upload env (calls w) p (upload_display_name env p dn) = Inr (gs 0)
        \<and> poll_answers env (calls w @ [FilesUpload p (upload_display_name env p dn)]) gs n
        \<and> f_state (gs n) \<noteq> PROCESSING
      \<longrightarrow> upload_video env w p dn =
            Some (if f_state (gs n) = FAILED
                  then (Inl (Exception ''Video processing failed''),
                        w\<lparr>calls := calls w @ FilesUpload p (upload_display_name env p dn) # poll_log gs n\<rparr>)
                  else (Inr (Uploaded (gs n)),
                        w\<lparr>calls := calls w @ FilesUpload p (upload_display_name env p dn) # poll_log gs n,
                          uploaded_files := (uploaded_files w)(p \<mapsto> Uploaded (gs n))\<rparr>)))
   \<and> (fs w p \<noteq> None \<and> uploaded_files w p = None
        \<and> svc_upload env (calls w) p (upload_display_name env p dn) = Inr f0
        \<and> f_state f0 = PROCESSING \<and> always_processing env
      \<longrightarrow> upload_video env w p dn = None)"
proof (intro conjI impI)
  assume "fs w p = None"
  then show "upload_video env w p dn = Some (Inl (FileNotFoundError p), w)"
    by (rule upload_video_missing)
next
  let ?d = "upload_display_name env p dn"
  let ?w1 = "log w (FilesUpload p ?d)"
  assume a: "fs w p \<noteq> None \<and> uploaded_files w p = None
        \<and> svc_upload env (calls w) p ?d = Inr (gs 0)
        \<and> poll_answers env (calls w @ [FilesUpload p ?d]) gs n
        \<and> f_state (gs n) \<noteq> PROCESSING"
  then have polls: "poll_answers env (calls ?w1) gs n"
    by (simp add: log_def)
  from a have "f_state (gs n) \<noteq> PROCESSING" by simp
  from wait_processing_polls [OF polls this]
  have "wait_processing env (gs 0) ?w1 = Some (Inr (gs n), ?w1\<lparr>calls := calls ?w1 @ poll_log gs n\<rparr>)" .
  moreover from a have "upload_video env w p dn =
     (case wait_processing env (gs 0) ?w1 of
        None \<Rightarrow> None
      | Some (Inl e, w2) \<Rightarrow> Some (Inl e, w2)
      | Some (Inr f, w2) \<Rightarrow>
          if f_state f = FAILED
          then Some (Inl (Exception ''Video processing failed''), w2)
          else Some (Inr (Uploaded f),
                 w2\<lparr>uploaded_files := (uploaded_files w2)(p \<mapsto> Uploaded f)\<rparr>))"
    by (intro upload_video_fresh) simp_all
  ultimately show "upload_video env w p dn =
            Some (if f_state (gs n) = FAILED
                  then (Inl (Exception ''Video processing failed''),
                        w\<lparr>calls := calls w @ FilesUpload p ?d # poll_log gs n\<rparr>)
                  else (Inr (Uploaded (gs n)),
                        w\<lparr>calls := calls w @ FilesUpload p ?d # poll_log gs n,
                          uploaded_files := (uploaded_files w)(p \<mapsto> Uploaded (gs n))\<rparr>))"
    by (simp add: log_def)
next
  let ?d = "upload_display_name env p dn"
  assume a: "fs w p \<noteq> None \<and> uploaded_files w p = None
        \<and> svc_upload env (calls w) p ?d = Inr f0
        \<and> f_state f0 = PROCESSING \<and> always_processing env"
  then have "wait_processing env f0 (log w (FilesUpload p ?d)) = None"
    by (intro wait_processing_hangs) simp_all
  moreover from a have "upload_video env w p dn =
     (case wait_processing env f0 (log w (FilesUpload p ?d)) of
        None \<Rightarrow> None
      | Some (Inl e, w2) \<Rightarrow> Some (Inl e, w2)
      | Some (Inr f, w2) \<Rightarrow>
          if f_state f = FAILED
          then Some (Inl (Exception ''Video processing failed''), w2)
          else Some (Inr (Uploaded f),
                 w2\<lparr>uploaded_files := (uploaded_files w2)(p \<mapsto> Uploaded f)\<rparr>))"
    by (intro upload_video_fresh) simp_all
  ultimately show "upload_video env w p dn = None" by simp
qed

text \<open>
  A missing file; a service that needs two polls and then reports \<open>ACTIVE\<close>; the same
  with \<open>FAILED\<close>; a service that reports \<open>PROCESSING\<close> for ever.
\<close>

theorem local_preparation_witness:
  "upload_video demo_env empty_world ''a.mp4'' PNone
     = Some (Inl (FileNotFoundError ''a.mp4''), empty_world)
   \<and> upload_video (polling_env ACTIVE) world_with_video ''a.mp4'' PNone
     = Some (Inr (Uploaded (demo_file ACTIVE)),
             world_with_video\<lparr>calls := demo_poll_calls,
                               uploaded_files := [''a.mp4'' \<mapsto> Uploaded (demo_file ACTIVE)]\<rparr>)
   \<and> upload_video (polling_env FAILED) world_with_video ''a.mp4'' PNone
     = Some (Inl (Exception ''Video processing failed''),
             world_with_video\<lparr>calls := demo_poll_calls\<rparr>)
   \<and> upload_video (polling_env PROCESSING) world_with_video ''a.mp4'' PNone = None"
proof -
  note c = local_preparation
  have missing: "fs empty_world ''a.mp4'' = None" by (simp add: empty_world_def)
  have r1: "upload_video demo_env empty_world ''a.mp4'' PNone
     = Some (Inl (FileNotFoundError ''a.mp4''), empty_world)"
    using c [where env = demo_env and w = empty_world and p = "''a.mp4''" and dn = PNone,
             THEN conjunct1] missing
    by simp
  have pre: "fs world_with_video ''a.mp4'' \<noteq> None \<and> uploaded_files world_with_video ''a.mp4'' = None
        \<and> svc_upload (polling_env st) (calls world_with_video) ''a.mp4''
             (upload_display_name (polling_env st) ''a.mp4'' PNone) = Inr (demo_polls st 0)" for st
    by (simp add: world_with_video_def empty_world_def polling_env_def demo_env_def demo_polls_def)
  have polls: "poll_answers (polling_env st)
         (calls world_with_video @ [FilesUpload ''a.mp4''
             (upload_display_name (polling_env st) ''a.mp4'' PNone)]) (demo_polls st) 2" for st
    by (simp add: poll_answers_def less_2_cases_iff world_with_video_def empty_world_def
          polling_env_def demo_env_def demo_polls_def demo_file_def upload_display_name_def)
  have stop: "st \<noteq> PROCESSING \<Longrightarrow> f_state (demo_polls st 2) \<noteq> PROCESSING" for st
    by (simp add: demo_polls_def demo_file_def)
  have log: "calls world_with_video
          @ FilesUpload ''a.mp4'' (upload_display_name (polling_env st) ''a.mp4'' PNone)
            # poll_log (demo_polls st) 2 = demo_poll_calls" for st
    by (simp add: world_with_video_def empty_world_def polling_env_def demo_env_def demo_polls_def
          demo_file_def upload_display_name_def demo_poll_calls_def numeral_2_eq_2)
  have r2: "upload_video (polling_env ACTIVE) world_with_video ''a.mp4'' PNone
     = Some (Inr (Uploaded (demo_file ACTIVE)),
             world_with_video\<lparr>calls := demo_poll_calls,
                               uploaded_files := [''a.mp4'' \<mapsto> Uploaded (demo_file ACTIVE)]\<rparr>)"
    using c [where env = "polling_env ACTIVE" and w = world_with_video and p = "''a.mp4''"
               and dn = PNone and gs = "demo_polls ACTIVE" and n = 2, THEN conjunct2, THEN conjunct1]
      pre [of ACTIVE] polls [of ACTIVE] stop [of ACTIVE] log [of ACTIVE]
    by (simp add: demo_polls_def demo_file_def world_with_video_def empty_world_def)
  have r3: "upload_video (polling_env FAILED) world_with_video ''a.mp4'' PNone
     = Some (Inl (Exception ''Video processing failed''),
             world_with_video\<lparr>calls := demo_poll_calls\<rparr>)"
    using c [where env = "polling_env FAILED" and w = world_with_video and p = "''a.mp4''"
               and dn = PNone and gs = "demo_polls FAILED" and n = 2, THEN conjunct2, THEN conjunct1]
      pre [of FAILED] polls [of FAILED] stop [of FAILED] log [of FAILED]
    by (simp add: demo_polls_def demo_file_def)
  have hang: "always_processing (polling_env PROCESSING)"
    by (simp add: always_processing_def polling_env_def demo_file_def)
  have r4: "upload_video (polling_env PROCESSING) world_with_video ''a.mp4'' PNone = None"
    using c [where env = "polling_env PROCESSING" and w = world_with_video and p = "''a.mp4''"
               and dn = PNone and ?f0.0 = "demo_polls PROCESSING 0", THEN conjunct2, THEN conjunct2]
      pre [of PROCESSING] hang
    by (simp add: demo_polls_def demo_file_def)
  from r1 r2 r3 r4 show ?thesis by simp
qed

subsection \<open>C7: the job filter\<close>



subsection \<open>C8: pacing\<close>



subsection \<open>C9: a job with both sources\<close>



subsection \<open>C10: the summary\<close>

text \<open>
  C10. When the resolved job list is not empty and the batch returns a summary, its
  \<open>total\<close> is the number of jobs, \<open>success + failed = total\<close>, and it has a failure
  list whose length is \<open>failed\<close>. When the resolved job list is empty, the batch
  returns at once the summary \<open>{total: 0, success: 0, failed: 0}\<close>, which has no failure
  list at all.
\<close>

theorem summary_invariant:
  "(resolve_videos cfg video_list \<noteq> [] \<longrightarrow>
      process_batch env cfg video_list w = Some (Inr s, w') \<longrightarrow>
        total s = length (resolve_videos cfg video_list)
        \<and> success s + failed s = total s
        \<and> (\<exists>es. errors s = Some es \<and> length es = failed s))
   \<and> (resolve_videos cfg video_list = [] \<longrightarrow>
        process_batch env cfg video_list w
          = Some (Inr \<lparr>total = 0, success = 0, failed = 0, errors = None\<rparr>, w))"
proof (intro conjI impI)
  assume ne: "resolve_videos cfg video_list \<noteq> []"
    and run: "process_batch env cfg video_list w = Some (Inr s, w')"
  let ?vs = "resolve_videos cfg video_list"
  let ?r0 = "\<lparr>total = length ?vs, success = 0, failed = 0, errors = Some []\<rparr>"
  from ne run have "batch_loop env cfg (length ?vs) 1 ?vs ?r0 w = Some (Inr s, w')"
    by (simp add: process_batch_def Let_def)
  from batch_loop_summary [OF this, of "[]"]
  have *: "total s = total ?r0 \<and> success s + failed s = success ?r0 + failed ?r0 + length ?vs
     \<and> (\<exists>es'. errors s = Some es' \<and> length es' = failed s)" by simp
  from * show "total s = length ?vs" by simp
  from * show "success s + failed s = total s" by simp
  from * show "\<exists>es. errors s = Some es \<and> length es = failed s" by simp
next
  assume "resolve_videos cfg video_list = []"
  then show "process_batch env cfg video_list w
          = Some (Inr \<lparr>total = 0, success = 0, failed = 0, errors = None\<rparr>, w)"
    by (simp add: process_batch_def)
qed

theorem summary_invariant_witness:
  "process_batch demo_env (demo_config demo_batch) None empty_world
     = Some (Inr demo_summary,
             demo_world [demo_generate, RateLimitSleep 2, RateLimitSleep 2, demo_generate])
   \<and> success demo_summary + failed demo_summary = total demo_summary
   \<and> map_option length (errors demo_summary) = Some (failed demo_summary)
   \<and> process_batch demo_env (demo_config []) None empty_world
     = Some (Inr \<lparr>total = 0, success = 0, failed = 0, errors = None\<rparr>, empty_world)"
proof -
  have ne: "resolve_videos (demo_config demo_batch) None \<noteq> []"
    by (simp add: resolve_videos_def demo_config_def demo_batch_def)
  have e: "resolve_videos (demo_config []) None = []"
    by (simp add: resolve_videos_def demo_config_def)
  from summary_invariant [where env = demo_env and cfg = "demo_config demo_batch"
         and video_list = None and w = empty_world, THEN conjunct1, rule_format, OF ne demo_batch_run]
  have a: "success demo_summary + failed demo_summary = total demo_summary
     \<and> (\<exists>es. errors demo_summary = Some es \<and> length es = failed demo_summary)"
    by simp
  then have b: "map_option length (errors demo_summary) = Some (failed demo_summary)" by auto
  from summary_invariant [where env = demo_env and cfg = "demo_config []"
         and video_list = None and w = empty_world, THEN conjunct2, rule_format, OF e]
  have c: "process_batch demo_env (demo_config []) None empty_world
     = Some (Inr \<lparr>total = 0, success = 0, failed = 0, errors = None\<rparr>, empty_world)" .
  from demo_batch_run a b c show ?thesis by simp
qed

end
